theory Spec2Isabelle
  imports Main
begin

section \<open>Data model\<close>

text \<open>
  Modelled from the spec: the \<^verbatim>\<open>ChainType\<close> enum is declared in \<^verbatim>\<open>./types\<close>, which is
  not part of the sources at hand. The spec gives the chain family tag as the fixed variant
  set {EVM, Cosmos}. The tag of a chain arrives in the \<^verbatim>\<open>sdk-info\<close> payload at run
  time, so \<open>OtherChainType\<close> stands for any run-time value that is neither enum member.
\<close>

datatype ChainType = EVM | COSMOS | OtherChainType string

text \<open>
  A chain identifier has the TypeScript type \<^verbatim>\<open>string | number\<close>. Numbers are modelled
  as integers (chain identifiers are whole numbers); fractions and the exponent notation
  that JavaScript prints above \<open>10^21\<close> are outside the model.
\<close>

datatype chain_id = IdNum int | IdStr string

fun string_of_nat :: "nat \<Rightarrow> string" where
  "string_of_nat n =
     (if n < 10 then [''0123456789'' ! n]
      else string_of_nat (n div 10) @ [''0123456789'' ! (n mod 10)])"

declare string_of_nat.simps [simp del]

definition string_of_int :: "int \<Rightarrow> string" where
  "string_of_int i =
     (if i < 0 then CHR ''-'' # string_of_nat (nat (- i)) else string_of_nat (nat i))"

text \<open>JavaScript's \<^verbatim>\<open>String(x)\<close> on a chain identifier.\<close>

fun String :: "chain_id \<Rightarrow> string" where
  "String (IdStr s) = s"
| "String (IdNum n) = string_of_int n"

text \<open>
  JavaScript truthiness of an optional string: \<^verbatim>\<open>undefined\<close> and the empty string are
  falsy, every other string is truthy.
\<close>

fun truthy :: "string option \<Rightarrow> bool" where
  "truthy None = False"
| "truthy (Some s) = (s \<noteq> [])"

text \<open>
  A JavaScript object: a finite map from property names to values. A property can be
  present with the value \<^verbatim>\<open>undefined\<close>, so the values are optional: \<open>m k = None\<close> says
  that the object has no key \<open>k\<close>, \<open>m k = Some None\<close> that the key is there and holds
  \<^verbatim>\<open>undefined\<close>.
\<close>

type_synonym 'v obj = "string \<rightharpoonup> 'v option"

record ChainData =
  chainId :: chain_id
  chainType :: ChainType
  rpc :: string
  nativeCurrencySymbol :: string

record Token =
  tokenChainId :: chain_id
  address :: string
  tokenSymbol :: string

text \<open>
  \<^verbatim>\<open>SquidData\<close>, the transaction request of a route. The fields \<^verbatim>\<open>data\<close> and
  \<^verbatim>\<open>value\<close> are named \<open>callData\<close> and \<open>callValue\<close> here.
\<close>

record SquidData =
  target :: string
  callData :: string
  callValue :: string
  gasLimit :: "string option"
  gasPrice :: "string option"
  maxFeePerGas :: "string option"
  maxPriorityFeePerGas :: "string option"

record RouteRequest =
  fromChain :: chain_id
  toChain :: chain_id
  fromToken :: string
  toToken :: string
  fromAmount :: string
  toAddress :: string

record Route =
  params :: RouteRequest
  transactionRequest :: "SquidData option"

text \<open>A signer capability, opaque to the coordinator and identified by a name.\<close>

datatype EvmWallet = EvmWallet string

text \<open>The read provider that \<^verbatim>\<open>ethersAdapter.rpcProvider(rpc)\<close> constructs.\<close>

datatype RpcProvider = RpcProvider string

datatype Abi = Erc20Abi

text \<open>
  The handle that \<^verbatim>\<open>ethersAdapter.contract(address, abi, signerOrProvider)\<close> constructs:
  it records what it is bound to. Construction is local, no network call is made.
\<close>

record Contract =
  contractAddress :: string
  contractAbi :: Abi
  runner :: "EvmWallet + RpcProvider"

record RouteParamsPopulated =
  request :: RouteRequest
  popFromChain :: ChainData
  popToChain :: ChainData
  popFromToken :: Token
  popToToken :: Token
  fromTokenContract :: "Contract option"
  fromProvider :: RpcProvider
  fromIsNative :: bool

record ExecuteRoute =
  signer :: "EvmWallet option"
  route :: Route
  overrides :: "string obj option"

text \<open>\<^verbatim>\<open>Omit<ExecuteRoute, "signer"> & { nonce: number }\<close>, the argument of \<^verbatim>\<open>getRawTxHex\<close>.\<close>

record RawTxData =
  rawRoute :: Route
  rawOverrides :: "string obj option"
  nonce :: int

subsection \<open>Errors\<close>

text \<open>
  Every \<^verbatim>\<open>throw new Error(...)\<close> of the sources is one constructor, named after the
  spec's taxonomy and carrying the values that the message interpolates:
  \<^item> \<open>InitializationError\<close>: \<^verbatim>\<open>"SDK initialization failed"\<close> (\<^verbatim>\<open>init\<close>);
  \<^item> \<open>NotInitializedError\<close>:
    \<^verbatim>\<open>"SquidSdk must be initialized! Please call the SquidSdk.init method"\<close>
    (\<^verbatim>\<open>validateInit\<close>);
  \<^item> \<open>MissingTransactionRequestError\<close>:
    \<^verbatim>\<open>"transactionRequest param not found in route object"\<close>
    (\<^verbatim>\<open>validateTransactionRequest\<close>);
  \<^item> \<open>UnsupportedChainFamilyError t\<close>:
    \<^verbatim>\<open>`Method not supported given chain type ${params.fromChain.chainType}`\<close>;
  \<^item> \<open>InsufficientBalanceError sender chain\<close>:
    \<^verbatim>\<open>`Insufficient funds for account: ${sender} on chain ${fromChain.chainId}`\<close>;
  \<^item> \<open>UpstreamServiceError m\<close>: \<^verbatim>\<open>new Error(data.error)\<close> in \<^verbatim>\<open>getRoute\<close>, an error
    whose message is \<open>m\<close>;
  \<^item> \<open>ChainNotFoundError\<close>, \<open>TokenNotFoundError\<close>: the spec's \<^verbatim>\<open>NotFoundError\<close> of the
    metadata lookups;
  \<^item> \<open>TypeError\<close>: destructuring a property of \<^verbatim>\<open>undefined\<close>.
\<close>

datatype error =
    InitializationError
  | NotInitializedError
  | MissingTransactionRequestError
  | UnsupportedChainFamilyError ChainType
  | InsufficientBalanceError string chain_id
  | UpstreamServiceError string
  | ChainNotFoundError chain_id
  | TokenNotFoundError string chain_id
  | TypeError

section \<open>The Squid class\<close>

subsection \<open>State and collaborators\<close>

record SdkInfo =
  infoTokens :: "Token list"
  infoChains :: "ChainData list"
  infoIsInMaintenanceMode :: bool
  infoMaintenanceMessage :: "string option"
  infoAxlScanUrl :: "string option"

record Squid =
  initialized :: bool
  tokens :: "Token list"
  chains :: "ChainData list"
  isInMaintenanceMode :: bool
  maintenanceMessage :: "string option"
  axelarscanURL :: "string option"

text \<open>The state of a freshly constructed object: the field initialisers of the class.\<close>

definition new_Squid :: Squid where
  "new_Squid = \<lparr>initialized = False, tokens = [], chains = [],
     isInMaintenanceMode = False, maintenanceMessage = None, axelarscanURL = None\<rparr>"

text \<open>
  Modelled from the spec: \<^verbatim>\<open>HttpAdapter\<close> is not part of the sources at hand. The spec
  gives the transport as \<^verbatim>\<open>GET path, params -> {data, headers, status}\<close> and
  \<^verbatim>\<open>POST path, body -> {data, headers, status}\<close>.
\<close>

record 'd response =
  status :: int
  payload :: 'd
  headers :: "string \<rightharpoonup> string"

text \<open>
  The body of a \<^verbatim>\<open>v2/route\<close> response: the property \<^verbatim>\<open>error\<close> that \<^verbatim>\<open>getRoute\<close> reads,
  and the route plan.
\<close>

record RouteData =
  errorField :: "string option"
  routeField :: "Route option"

record GetStatus =
  transactionId :: string
  requestId :: "string option"
  integratorId :: "string option"

text \<open>
  A call that the coordinator hands to a chain-family handler (\<^verbatim>\<open>this.handlers.evm\<close>,
  \<^verbatim>\<open>this.handlers.cosmos\<close>), with its arguments.
\<close>

datatype handler_call =
    Evm_executeRoute ExecuteRoute RouteParamsPopulated
  | Cosmos_executeRoute ExecuteRoute RouteParamsPopulated
  | Evm_isRouteApproved string RouteParamsPopulated string
  | Evm_approveRoute ExecuteRoute RouteParamsPopulated
  | Evm_getRawTxHex RawTxData

datatype handler = EvmHandler | CosmosHandler

fun handler_of :: "handler_call \<Rightarrow> handler" where
  "handler_of (Evm_executeRoute d p) = EvmHandler"
| "handler_of (Cosmos_executeRoute d p) = CosmosHandler"
| "handler_of (Evm_isRouteApproved s p t) = EvmHandler"
| "handler_of (Evm_approveRoute d p) = EvmHandler"
| "handler_of (Evm_getRawTxHex d) = EvmHandler"

text \<open>
  What an operation does to the outside world, in order: requests sent through the
  transport and calls handed to a handler.
\<close>

datatype effect =
    HttpGet string
  | HttpPost string RouteRequest
  | Invoke handler_call

text \<open>
  The collaborators of the object: the three endpoints of the routing service, the
  handlers (whose results are opaque values of type \<open>'r\<close>), and the native-token sentinel
  \<^verbatim>\<open>nativeTokenConstant\<close> of \<^verbatim>\<open>./constants\<close>, a fixed address that is not part of the
  sources at hand.
\<close>

record ('st, 'r) env =
  sdk_info :: "SdkInfo response"
  status_endpoint :: "GetStatus \<Rightarrow> (string \<rightharpoonup> string) \<Rightarrow> 'st response"
  route_endpoint :: "RouteRequest \<Rightarrow> RouteData response"
  handlers :: "handler_call \<Rightarrow> error + 'r"
  nativeTokenConstant :: string
  defaultHeaders :: "string \<rightharpoonup> string"

text \<open>
  The outcome of an operation: the effects it had, and the error it threw or the value it
  returned.
\<close>

type_synonym 'a outcome = "effect list \<times> (error + 'a)"

text \<open>
  Sequencing: a step that throws ends the operation with its error; otherwise the rest of
  the body runs on the value. \<open>attempt\<close> sequences the steps of a function that has no
  effects, \<open>check\<close> a step that precedes every effect of an operation.
\<close>

definition attempt :: "error + 'a \<Rightarrow> ('a \<Rightarrow> error + 'b) \<Rightarrow> error + 'b" where
  "attempt r k = (case r of Inl e \<Rightarrow> Inl e | Inr x \<Rightarrow> k x)"

definition check :: "error + 'a \<Rightarrow> ('a \<Rightarrow> 'b outcome) \<Rightarrow> 'b outcome" where
  "check r k = (case r of Inl e \<Rightarrow> ([], Inl e) | Inr x \<Rightarrow> k x)"

definition invoked :: "'a outcome \<Rightarrow> handler list" where
  "invoked out = concat (map (\<lambda>e. case e of Invoke c \<Rightarrow> [handler_of c] | _ \<Rightarrow> []) (fst out))"

subsection \<open>Initialisation\<close>

text \<open>
  \<^verbatim>\<open>init\<close>: one \<^verbatim>\<open>GET v2/sdk-info\<close>; a status other than 200 throws and leaves the
  object as it was, a status of 200 stores the metadata and latches the flag.
\<close>

definition init :: "('st, 'r) env \<Rightarrow> Squid \<Rightarrow> unit outcome \<times> Squid" where
  "init E s =
     (let response = sdk_info E in
      if status response \<noteq> 200 then (([HttpGet ''v2/sdk-info''], Inl InitializationError), s)
      else (([HttpGet ''v2/sdk-info''], Inr ()),
            s\<lparr>tokens := infoTokens (payload response),
              chains := infoChains (payload response),
              isInMaintenanceMode := infoIsInMaintenanceMode (payload response),
              maintenanceMessage := infoMaintenanceMessage (payload response),
              axelarscanURL := infoAxlScanUrl (payload response),
              initialized := True\<rparr>))"

subsection \<open>Internal methods\<close>

definition validateInit :: "Squid \<Rightarrow> error + unit" where
  "validateInit s = (if \<not> initialized s then Inl NotInitializedError else Inr ())"

text \<open>
  \<^verbatim>\<open>!route.transactionRequest\<close>: the transaction request is an object or
  \<^verbatim>\<open>undefined\<close>, and an object is always truthy.
\<close>

definition validateTransactionRequest :: "Route \<Rightarrow> error + unit" where
  "validateTransactionRequest r =
     (if transactionRequest r = None then Inl MissingTransactionRequestError else Inr ())"

text \<open>
  Modelled from the spec: \<^verbatim>\<open>getChainData\<close> and \<^verbatim>\<open>getTokenData\<close> are methods of the base
  class \<^verbatim>\<open>TokensChains\<close>, which is not part of the sources at hand. The spec: the Metadata
  Store "provides lookup by chain identifier and token address", and the resolver "fails
  with NotFoundError if any lookup misses (unknown chain id or token address for that
  chain)".
\<close>

definition getChainData :: "Squid \<Rightarrow> chain_id \<Rightarrow> error + ChainData" where
  "getChainData s cid =
     (case find (\<lambda>c. chainId c = cid) (chains s) of
        None \<Rightarrow> Inl (ChainNotFoundError cid)
      | Some c \<Rightarrow> Inr c)"

definition getTokenData :: "Squid \<Rightarrow> string \<Rightarrow> chain_id \<Rightarrow> error + Token" where
  "getTokenData s a cid =
     (case find (\<lambda>t. address t = a \<and> tokenChainId t = cid) (tokens s) of
        None \<Rightarrow> Inl (TokenNotFoundError a cid)
      | Some t \<Rightarrow> Inr t)"

text \<open>
  \<^verbatim>\<open>populateRouteParams\<close>. The four lookups run in the order of the source, and the first
  one that misses throws. \<^verbatim>\<open>signer || fromProvider\<close> takes the signer when one is given.
\<close>

definition populateRouteParams ::
  "('st, 'r) env \<Rightarrow> Squid \<Rightarrow> RouteRequest \<Rightarrow> EvmWallet option \<Rightarrow> error + RouteParamsPopulated"
where
  "populateRouteParams E s ps sg =
     attempt (getChainData s (fromChain ps)) (\<lambda>fc.
     attempt (getChainData s (toChain ps)) (\<lambda>tc.
     attempt (getTokenData s (fromToken ps) (fromChain ps)) (\<lambda>ft.
     attempt (getTokenData s (toToken ps) (toChain ps)) (\<lambda>tt.
        (let provider = RpcProvider (rpc fc);
             isNative = (address ft = nativeTokenConstant E);
             contract =
               (if \<not> isNative
                then Some \<lparr>contractAddress = address ft, contractAbi = Erc20Abi,
                       runner = (case sg of Some w \<Rightarrow> Inl w | None \<Rightarrow> Inr provider)\<rparr>
                else None)
         in Inr \<lparr>request = ps, popFromChain = fc, popToChain = tc, popFromToken = ft,
                 popToToken = tt, fromTokenContract = contract, fromProvider = provider,
                 fromIsNative = isNative\<rparr>)))))"

subsection \<open>Public methods\<close>

text \<open>
  What \<^verbatim>\<open>getStatus\<close> and \<^verbatim>\<open>getRoute\<close> return: the body of the response
  (\<^verbatim>\<open>...data\<close>) with the two identifiers echoed from the response headers.
\<close>

record 'd echoed =
  body :: 'd
  echoRequestId :: "string option"
  echoIntegratorId :: "string option"

definition requestHeaders :: "('st, 'r) env \<Rightarrow> GetStatus \<Rightarrow> (string \<rightharpoonup> string)" where
  "requestHeaders E ps =
     (defaultHeaders E)
       ++ (if truthy (requestId ps) then [''x-request-id'' \<mapsto> the (requestId ps)] else Map.empty)
       ++ (if truthy (integratorId ps) then [''x-integrator-id'' \<mapsto> the (integratorId ps)]
           else Map.empty)"

text \<open>\<^verbatim>\<open>getStatus\<close> sends its request at once: it does not call \<^verbatim>\<open>validateInit\<close>.\<close>

definition getStatus :: "('st, 'r) env \<Rightarrow> Squid \<Rightarrow> GetStatus \<Rightarrow> 'st echoed outcome" where
  "getStatus E s ps =
     (let response = status_endpoint E ps (requestHeaders E ps) in
      ([HttpGet ''/v1/status''],
       Inr \<lparr>body = payload response,
            echoRequestId = headers response ''x-request-id'',
            echoIntegratorId = headers response ''x-integrator-id''\<rparr>))"

text \<open>
  \<^verbatim>\<open>new Error(x)\<close> has the message \<^verbatim>\<open>x\<close> when \<^verbatim>\<open>x\<close> is a string and the empty message
  when \<^verbatim>\<open>x\<close> is \<^verbatim>\<open>undefined\<close>.
\<close>

fun new_Error_message :: "string option \<Rightarrow> string" where
  "new_Error_message None = []"
| "new_Error_message (Some m) = m"

definition getRoute :: "('st, 'r) env \<Rightarrow> Squid \<Rightarrow> RouteRequest \<Rightarrow> RouteData echoed outcome" where
  "getRoute E s ps =
     check (validateInit s) (\<lambda>_.
        (let response = route_endpoint E ps in
         if status response \<noteq> 200
         then ([HttpPost ''v2/route'' ps],
               Inl (UpstreamServiceError (new_Error_message (errorField (payload response)))))
         else ([HttpPost ''v2/route'' ps],
               Inr \<lparr>body = payload response,
                    echoRequestId = headers response ''x-request-id'',
                    echoIntegratorId = headers response ''x-integrator-id''\<rparr>)))"

definition executeRoute :: "('st, 'r) env \<Rightarrow> Squid \<Rightarrow> ExecuteRoute \<Rightarrow> 'r outcome" where
  "executeRoute E s d =
     check (validateInit s) (\<lambda>_.
     check (validateTransactionRequest (route d)) (\<lambda>_.
     check (populateRouteParams E s (params (route d)) (signer d)) (\<lambda>p.
          (case chainType (popFromChain p) of
             EVM \<Rightarrow> ([Invoke (Evm_executeRoute d p)], handlers E (Evm_executeRoute d p))
           | COSMOS \<Rightarrow>
               ([Invoke (Cosmos_executeRoute d p)], handlers E (Cosmos_executeRoute d p))
           | OtherChainType t \<Rightarrow> ([], Inl (UnsupportedChainFamilyError (OtherChainType t)))))))"

text \<open>
  \<^verbatim>\<open>isRouteApproved\<close> resolves the parameters without a signer. Its \<^verbatim>\<open>switch\<close> has the
  one case \<^verbatim>\<open>ChainType.EVM\<close>; every other tag, \<^verbatim>\<open>ChainType.COSMOS\<close> included, reaches
  \<^verbatim>\<open>default\<close>.
\<close>

definition isRouteApproved :: "('st, 'r) env \<Rightarrow> Squid \<Rightarrow> Route \<Rightarrow> string \<Rightarrow> 'r outcome" where
  "isRouteApproved E s r sender =
     check (validateInit s) (\<lambda>_.
     check (validateTransactionRequest r) (\<lambda>_.
     check (populateRouteParams E s (params r) None) (\<lambda>p.
          (case chainType (popFromChain p) of
             EVM \<Rightarrow>
               (case transactionRequest r of
                  None \<Rightarrow> ([], Inl TypeError)
                | Some tr \<Rightarrow>
                    ([Invoke (Evm_isRouteApproved sender p (target tr))],
                     handlers E (Evm_isRouteApproved sender p (target tr))))
           | t \<Rightarrow> ([], Inl (UnsupportedChainFamilyError t))))))"

definition approveRoute :: "('st, 'r) env \<Rightarrow> Squid \<Rightarrow> ExecuteRoute \<Rightarrow> 'r outcome" where
  "approveRoute E s d =
     check (validateInit s) (\<lambda>_.
     check (validateTransactionRequest (route d)) (\<lambda>_.
     check (populateRouteParams E s (params (route d)) (signer d)) (\<lambda>p.
          (case chainType (popFromChain p) of
             EVM \<Rightarrow> ([Invoke (Evm_approveRoute d p)], handlers E (Evm_approveRoute d p))
           | t \<Rightarrow> ([], Inl (UnsupportedChainFamilyError t))))))"

text \<open>
  \<^verbatim>\<open>getRawTxHex\<close> makes its two checks and hands the caller's data to the EVM handler.
  It does not call \<^verbatim>\<open>populateRouteParams\<close> and reads no chain type.
\<close>

definition getRawTxHex :: "('st, 'r) env \<Rightarrow> Squid \<Rightarrow> RawTxData \<Rightarrow> 'r outcome" where
  "getRawTxHex E s d =
     check (validateInit s) (\<lambda>_.
     check (validateTransactionRequest (rawRoute d)) (\<lambda>_.
        ([Invoke (Evm_getRawTxHex d)], handlers E (Evm_getRawTxHex d))))"

text \<open>
  \<^verbatim>\<open>getAllBalances\<close>. The callback of \<^verbatim>\<open>this.chains.reduce\<close>: a chain whose
  normalised identifier is not among the requested ones leaves the accumulator as it is;
  a Cosmos chain is pushed onto the second list, every other chain onto the first.
\<close>

definition partitionStep ::
  "string list \<Rightarrow> chain_id list \<times> chain_id list \<Rightarrow> ChainData \<Rightarrow> chain_id list \<times> chain_id list"
where
  "partitionStep normalizedChainIds cosmosAndEvmChains chain =
     (if String (chainId chain) \<notin> set normalizedChainIds then cosmosAndEvmChains
      else if chainType chain = COSMOS
        then (fst cosmosAndEvmChains, snd cosmosAndEvmChains @ [chainId chain])
        else (fst cosmosAndEvmChains @ [chainId chain], snd cosmosAndEvmChains))"

text \<open>The pair \<^verbatim>\<open>[evmChainIds, cosmosChainIds]\<close> that the \<^verbatim>\<open>reduce\<close> returns.\<close>

definition partitionChainIds :: "Squid \<Rightarrow> chain_id list \<Rightarrow> chain_id list \<times> chain_id list" where
  "partitionChainIds s chainIds =
     foldl (partitionStep (map String chainIds)) ([], []) (chains s)"

text \<open>
  \<^verbatim>\<open>getEvmBalances\<close> and \<^verbatim>\<open>getCosmosBalances\<close> only pass their arguments on to
  \<^verbatim>\<open>./utils\<close> and to the handlers, which are not part of the sources at hand; they are
  parameters here (chain identifiers and address in, balances out). An absent
  \<^verbatim>\<open>chainIds\<close> defaults to the empty list, \<^verbatim>\<open>evmAddress\<close> is tested for truthiness, and
  \<^verbatim>\<open>cosmosAddresses\<close>, an array, is truthy whenever it is given.
\<close>

record ('eb, 'cb) AllBalances =
  evmBalances :: "'eb list"
  cosmosBalances :: "'cb list"

definition getAllBalances ::
  "(chain_id list \<Rightarrow> string \<Rightarrow> 'eb list) \<Rightarrow> (chain_id list \<Rightarrow> 'ca list \<Rightarrow> 'cb list) \<Rightarrow> Squid
     \<Rightarrow> chain_id list option \<Rightarrow> 'ca list option \<Rightarrow> string option \<Rightarrow> ('eb, 'cb) AllBalances"
where
  "getAllBalances getEvmBalances getCosmosBalances s chainIds cosmosAddresses evmAddress =
     (let ids = (case chainIds of None \<Rightarrow> [] | Some xs \<Rightarrow> xs);
          evmChainIds = fst (partitionChainIds s ids);
          cosmosChainIds = snd (partitionChainIds s ids)
      in \<lparr>evmBalances =
             (if truthy evmAddress then getEvmBalances evmChainIds (the evmAddress) else []),
          cosmosBalances =
             (case cosmosAddresses of
                Some addresses \<Rightarrow> getCosmosBalances cosmosChainIds addresses
              | None \<Rightarrow> [])\<rparr>)"

section \<open>The EVM handler's utilities\<close>

text \<open>
  Modelled from the spec: the types \<^verbatim>\<open>RpcProvider\<close> and \<^verbatim>\<open>Contract\<close> are declared in
  \<^verbatim>\<open>types/ethers\<close>, which is not part of the sources at hand. The spec gives the chain
  capability as \<^verbatim>\<open>getBalance(address) -> amount\<close>,
  \<^verbatim>\<open>balanceOf(tokenAddress, address) -> amount\<close> and \<^verbatim>\<open>symbol() -> string\<close>. The amounts
  are arbitrary-precision integers, so \<^verbatim>\<open>BigInt(x.toString())\<close> is the amount itself.
\<close>

record chain_capability =
  getBalance :: "RpcProvider \<Rightarrow> string \<Rightarrow> int"
  balanceOf :: "Contract \<Rightarrow> string \<Rightarrow> int"
  symbol :: "Contract \<Rightarrow> string"

record Approval =
  isApproved :: bool
  message :: string

definition validateNativeBalance ::
  "chain_capability \<Rightarrow> RpcProvider \<Rightarrow> string \<Rightarrow> int \<Rightarrow> ChainData \<Rightarrow> error + Approval"
where
  "validateNativeBalance C provider sender amount chain =
     (let balance = getBalance C provider sender in
      if amount > balance then Inl (InsufficientBalanceError sender (chainId chain))
      else Inr \<lparr>isApproved = True,
             message = ''User has the expected balance '' @ string_of_int amount @ '' of ''
               @ nativeCurrencySymbol chain\<rparr>)"

definition validateTokenBalance ::
  "chain_capability \<Rightarrow> int \<Rightarrow> Contract \<Rightarrow> string \<Rightarrow> ChainData \<Rightarrow> error + Approval"
where
  "validateTokenBalance C amount contract sender chain =
     (let balance = balanceOf C contract sender in
      if amount > balance then Inl (InsufficientBalanceError sender (chainId chain))
      else Inr \<lparr>isApproved = True,
             message = ''User has approved Squid to use '' @ string_of_int amount @ '' of ''
               @ symbol C contract\<rparr>)"

text \<open>
  \<^verbatim>\<open>getGasData\<close>. The test \<^verbatim>\<open>maxPriorityFeePerGas ? ... : ...\<close> is one of truthiness. An
  object literal has each of its keys even where the value is \<^verbatim>\<open>undefined\<close>, and the
  spread \<^verbatim>\<open>{ ...gasParams, ...overrides }\<close> lets the keys of \<^verbatim>\<open>overrides\<close> win.
\<close>

definition getGasData :: "SquidData \<Rightarrow> string obj option \<Rightarrow> string obj" where
  "getGasData tr ov =
     (let gasParams =
        (if truthy (maxPriorityFeePerGas tr)
         then [''gasLimit'' \<mapsto> gasLimit tr,
               ''maxPriorityFeePerGas'' \<mapsto> maxPriorityFeePerGas tr,
               ''maxFeePerGas'' \<mapsto> maxFeePerGas tr]
         else [''gasLimit'' \<mapsto> gasLimit tr, ''gasPrice'' \<mapsto> gasPrice tr])
      in case ov of Some os \<Rightarrow> gasParams ++ os | None \<Rightarrow> gasParams)"

section \<open>The route response normaliser\<close>

text \<open>
  Modelled from the spec: the \<^verbatim>\<open>CallType\<close> enum is declared in \<^verbatim>\<open>types\<close>, which is not
  part of the sources at hand. The spec gives the discriminator tags as {Bridge, Swap,
  Custom}. The tag of a raw call arrives in the service's response, so \<open>OtherCallType\<close>
  stands for any run-time value that is none of the three.
\<close>

datatype CallType = BRIDGE | SWAP | CUSTOM | OtherCallType string

text \<open>
  A call, raw or parsed: its tag, its \<^verbatim>\<open>dex\<close> property (an object or \<^verbatim>\<open>undefined\<close>) and
  its other properties.
\<close>

record 'v Call =
  type :: CallType
  dex :: "'v obj option"
  props :: "'v obj"

text \<open>Reading a property of an object: \<^verbatim>\<open>undefined\<close> where the object has no such key.\<close>

definition readProp :: "'v obj \<Rightarrow> string \<Rightarrow> 'v option" where
  "readProp m k = (case m k of None \<Rightarrow> None | Some v \<Rightarrow> v)"

text \<open>
  \<^verbatim>\<open>const { a, b } = data; return { a, b }\<close>: the object with exactly the keys listed,
  each holding what \<^verbatim>\<open>data\<close> holds for it.
\<close>

definition pick :: "string list \<Rightarrow> 'v obj \<Rightarrow> 'v obj" where
  "pick ks m = (\<lambda>k. if k \<in> set ks then Some (readProp m k) else None)"

definition parseBridge :: "'v Call \<Rightarrow> 'v Call" where
  "parseBridge d =
     \<lparr>type = BRIDGE, dex = None,
      props = pick [''fromToken'', ''toToken'', ''fromAmount'', ''toAmount'', ''toAmountMin'',
                    ''exchangeRate'', ''priceImpact''] (props d)\<rparr>"

text \<open>
  \<^verbatim>\<open>parseSwap\<close> destructures \<^verbatim>\<open>dex: { chainName, ... }\<close>, which throws a
  \<^verbatim>\<open>TypeError\<close> when \<^verbatim>\<open>data.dex\<close> is \<^verbatim>\<open>undefined\<close>. \<^verbatim>\<open>removeEmpty\<close> comes from
  \<^verbatim>\<open>./util\<close>, which is not part of the sources at hand; it is a parameter.
\<close>

definition parseSwap :: "('v Call \<Rightarrow> 'v Call) \<Rightarrow> 'v Call \<Rightarrow> error + 'v Call" where
  "parseSwap removeEmpty d =
     (case dex d of
        None \<Rightarrow> Inl TypeError
      | Some x \<Rightarrow>
          Inr (removeEmpty
            \<lparr>type = type d,
             dex = Some (pick [''chainName'', ''dexName'', ''factory'', ''isStable'',
                               ''swapRouter''] x),
             props = pick [''squidCallType'', ''path'', ''fromToken'', ''toToken'',
                           ''fromAmount'', ''toAmount'', ''toAmountMin'', ''exchangeRate'',
                           ''priceImpact'', ''dynamicSlippage''] (props d)\<rparr>))"

definition parseCustom :: "('v Call \<Rightarrow> 'v Call) \<Rightarrow> 'v Call \<Rightarrow> 'v Call" where
  "parseCustom removeEmpty d =
     removeEmpty
       \<lparr>type = type d, dex = None,
        props = pick [''callType'', ''target'', ''value'', ''callData'', ''estimatedGas'',
                      ''payload''] (props d)\<rparr>"

text \<open>
  The callback of \<^verbatim>\<open>.map\<close> in \<^verbatim>\<open>parseRoute\<close>: a \<^verbatim>\<open>switch\<close> with three cases and no
  \<^verbatim>\<open>default\<close>, so a call of any other tag yields \<^verbatim>\<open>undefined\<close> (\<open>None\<close>).
\<close>

definition parseCall :: "('v Call \<Rightarrow> 'v Call) \<Rightarrow> 'v Call \<Rightarrow> error + 'v Call option" where
  "parseCall removeEmpty call =
     (case type call of
        BRIDGE \<Rightarrow> Inr (Some (parseBridge call))
      | SWAP \<Rightarrow> attempt (parseSwap removeEmpty call) (\<lambda>c. Inr (Some c))
      | CUSTOM \<Rightarrow> Inr (Some (parseCustom removeEmpty call))
      | OtherCallType t \<Rightarrow> Inr None)"

text \<open>\<^verbatim>\<open>.map\<close> runs its callback from left to right; the first throw ends it.\<close>

fun collect :: "(error + 'a) list \<Rightarrow> error + 'a list" where
  "collect [] = Inr []"
| "collect (r # rs) = attempt r (\<lambda>x. attempt (collect rs) (\<lambda>xs. Inr (x # xs)))"

definition parseRoute :: "('v Call \<Rightarrow> 'v Call) \<Rightarrow> 'v Call list \<Rightarrow> error + 'v Call option list" where
  "parseRoute removeEmpty d =
     collect (map (parseCall removeEmpty)
       (filter (\<lambda>call. type call \<in> set [BRIDGE, CUSTOM, SWAP]) d))"

section \<open>Example data\<close>

text \<open>
  A small metadata store: an EVM chain with its native token and one contract token, a
  Cosmos chain, and a chain whose family tag is neither of the two.
\<close>

definition ethereum :: ChainData where
  "ethereum = \<lparr>chainId = IdNum 1, chainType = EVM, rpc = ''https://rpc.ethereum'',
     nativeCurrencySymbol = ''ETH''\<rparr>"

definition osmosis :: ChainData where
  "osmosis = \<lparr>chainId = IdStr ''osmosis-1'', chainType = COSMOS, rpc = ''https://rpc.osmosis'',
     nativeCurrencySymbol = ''OSMO''\<rparr>"

definition solana :: ChainData where
  "solana = \<lparr>chainId = IdStr ''solana'', chainType = OtherChainType ''solana'',
     rpc = ''https://rpc.solana'', nativeCurrencySymbol = ''SOL''\<rparr>"

definition sentinel :: string where
  "sentinel = ''0xEeeeeEeeeEeEeeEeEeEeeEEEeeeeEeeeeeeeEEeE''"

definition eth :: Token where
  "eth = \<lparr>tokenChainId = IdNum 1, address = sentinel, tokenSymbol = ''ETH''\<rparr>"

definition usdc :: Token where
  "usdc = \<lparr>tokenChainId = IdNum 1, address = ''0xA0b8'', tokenSymbol = ''USDC''\<rparr>"

definition osmo :: Token where
  "osmo = \<lparr>tokenChainId = IdStr ''osmosis-1'', address = ''uosmo'', tokenSymbol = ''OSMO''\<rparr>"

definition sol :: Token where
  "sol = \<lparr>tokenChainId = IdStr ''solana'', address = ''So11'', tokenSymbol = ''SOL''\<rparr>"

text \<open>
  A routing service that answers every route request with status 400 and the body
  \<^verbatim>\<open>{error: "slippage too high"}\<close>, and handlers that return a fixed value.
\<close>

definition example_env :: "(string, string) env" where
  "example_env =
     \<lparr>sdk_info = \<lparr>status = 200,
         payload = \<lparr>infoTokens = [eth, usdc, osmo, sol], infoChains = [ethereum, osmosis, solana],
           infoIsInMaintenanceMode = False, infoMaintenanceMessage = None,
           infoAxlScanUrl = None\<rparr>,
         headers = Map.empty\<rparr>,
      status_endpoint = (\<lambda>q h. \<lparr>status = 200, payload = ''success'', headers = Map.empty\<rparr>),
      route_endpoint = (\<lambda>q. \<lparr>status = 400,
         payload = \<lparr>errorField = Some ''slippage too high'', routeField = None\<rparr>,
         headers = Map.empty\<rparr>),
      handlers = (\<lambda>c. Inr ''done''),
      nativeTokenConstant = sentinel,
      defaultHeaders = Map.empty\<rparr>"

text \<open>The object after a completed \<^verbatim>\<open>init()\<close> against that service.\<close>

definition ready_Squid :: Squid where
  "ready_Squid = snd (init example_env new_Squid)"

definition example_request :: "chain_id \<Rightarrow> string \<Rightarrow> RouteRequest" where
  "example_request c t = \<lparr>fromChain = c, toChain = IdNum 1, fromToken = t, toToken = ''0xA0b8'',
     fromAmount = ''1000'', toAddress = ''0xBob''\<rparr>"

definition example_tx :: SquidData where
  "example_tx = \<lparr>target = ''0xRouter'', callData = ''0x00'', callValue = ''0'',
     gasLimit = Some ''500000'', gasPrice = Some ''30'', maxFeePerGas = Some ''40'',
     maxPriorityFeePerGas = Some ''2''\<rparr>"

definition legacy_tx :: SquidData where
  "legacy_tx = example_tx\<lparr>maxFeePerGas := None, maxPriorityFeePerGas := None\<rparr>"

definition example_contract :: Contract where
  "example_contract = \<lparr>contractAddress = ''0xA0b8'', contractAbi = Erc20Abi,
     runner = Inr (RpcProvider ''https://rpc.ethereum'')\<rparr>"

definition example_capability :: chain_capability where
  "example_capability = \<lparr>getBalance = (\<lambda>p a. 100), balanceOf = (\<lambda>c a. 100),
     symbol = (\<lambda>c. ''USDC'')\<rparr>"

text \<open>Orders for \<^verbatim>\<open>executeRoute\<close> and \<^verbatim>\<open>approveRoute\<close>, and what they resolve to.\<close>

definition order :: "chain_id \<Rightarrow> string \<Rightarrow> SquidData option \<Rightarrow> ExecuteRoute" where
  "order c t tx = \<lparr>signer = Some (EvmWallet ''alice''),
     route = \<lparr>params = example_request c t, transactionRequest = tx\<rparr>, overrides = None\<rparr>"

definition raw_order :: "chain_id \<Rightarrow> string \<Rightarrow> SquidData option \<Rightarrow> RawTxData" where
  "raw_order c t tx = \<lparr>rawRoute = \<lparr>params = example_request c t, transactionRequest = tx\<rparr>,
     rawOverrides = None, nonce = 7\<rparr>"

definition usdc_params :: "EvmWallet option \<Rightarrow> RouteParamsPopulated" where
  "usdc_params sg =
     \<lparr>request = example_request (IdNum 1) ''0xA0b8'', popFromChain = ethereum,
      popToChain = ethereum, popFromToken = usdc, popToToken = usdc,
      fromTokenContract = Some \<lparr>contractAddress = ''0xA0b8'', contractAbi = Erc20Abi,
        runner = (case sg of Some w \<Rightarrow> Inl w
                  | None \<Rightarrow> Inr (RpcProvider ''https://rpc.ethereum''))\<rparr>,
      fromProvider = RpcProvider ''https://rpc.ethereum'', fromIsNative = False\<rparr>"

definition eth_params :: RouteParamsPopulated where
  "eth_params =
     \<lparr>request = example_request (IdNum 1) sentinel, popFromChain = ethereum,
      popToChain = ethereum, popFromToken = eth, popToToken = usdc,
      fromTokenContract = None,
      fromProvider = RpcProvider ''https://rpc.ethereum'', fromIsNative = True\<rparr>"

definition osmo_params :: "EvmWallet option \<Rightarrow> RouteParamsPopulated" where
  "osmo_params sg =
     \<lparr>request = example_request (IdStr ''osmosis-1'') ''uosmo'', popFromChain = osmosis,
      popToChain = ethereum, popFromToken = osmo, popToToken = usdc,
      fromTokenContract = Some \<lparr>contractAddress = ''uosmo'', contractAbi = Erc20Abi,
        runner = (case sg of Some w \<Rightarrow> Inl w
                  | None \<Rightarrow> Inr (RpcProvider ''https://rpc.osmosis''))\<rparr>,
      fromProvider = RpcProvider ''https://rpc.osmosis'', fromIsNative = False\<rparr>"

definition sol_params :: "EvmWallet option \<Rightarrow> RouteParamsPopulated" where
  "sol_params sg =
     \<lparr>request = example_request (IdStr ''solana'') ''So11'', popFromChain = solana,
      popToChain = ethereum, popFromToken = sol, popToToken = usdc,
      fromTokenContract = Some \<lparr>contractAddress = ''So11'', contractAbi = Erc20Abi,
        runner = (case sg of Some w \<Rightarrow> Inl w
                  | None \<Rightarrow> Inr (RpcProvider ''https://rpc.solana''))\<rparr>,
      fromProvider = RpcProvider ''https://rpc.solana'', fromIsNative = False\<rparr>"

text \<open>
  A raw call list as the routing service sends it: a bridge, a call of a tag that the
  parser does not know, a swap and a custom call.
\<close>

definition raw_call :: "CallType \<Rightarrow> string obj option \<Rightarrow> string Call" where
  "raw_call t x = \<lparr>type = t, dex = x, props = [''fromAmount'' \<mapsto> Some ''1000'']\<rparr>"

definition raw_calls :: "string Call list" where
  "raw_calls = [raw_call BRIDGE None, raw_call (OtherCallType ''TRANSFER'') None,
     raw_call SWAP (Some [''dexName'' \<mapsto> Some ''uniswap'']), raw_call CUSTOM None]"

text \<open>The plan that the parser makes of \<open>raw_calls\<close> when \<^verbatim>\<open>removeEmpty\<close> changes nothing.\<close>

definition example_plan :: "string Call option list" where
  "example_plan =
     [Some (parseBridge (raw_call BRIDGE None)),
      Some \<lparr>type = SWAP,
            dex = Some (pick [''chainName'', ''dexName'', ''factory'', ''isStable'',
                              ''swapRouter''] [''dexName'' \<mapsto> Some ''uniswap'']),
            props = pick [''squidCallType'', ''path'', ''fromToken'', ''toToken'',
                          ''fromAmount'', ''toAmount'', ''toAmountMin'', ''exchangeRate'',
                          ''priceImpact'', ''dynamicSlippage'']
                      [''fromAmount'' \<mapsto> Some ''1000'']\<rparr>,
      Some (parseCustom (\<lambda>c. c) (raw_call CUSTOM None))]"

section \<open>Auxiliary facts\<close>

lemma check_Inl: "check (Inl e) k = ([], Inl e)"
  by (simp add: check_def)

lemma check_Inr: "check (Inr x) k = k x"
  by (simp add: check_def)

lemma attempt_Inr_iff: "attempt r k = Inr y \<longleftrightarrow> (\<exists>x. r = Inr x \<and> k x = Inr y)"
  by (cases r) (simp_all add: attempt_def)

lemma validateInit_ready: "initialized s \<Longrightarrow> validateInit s = Inr ()"
  by (simp add: validateInit_def)

lemma validateInit_not_ready: "\<not> initialized s \<Longrightarrow> validateInit s = Inl NotInitializedError"
  by (simp add: validateInit_def)

lemma validateTransactionRequest_present:
  "transactionRequest r = Some tx \<Longrightarrow> validateTransactionRequest r = Inr ()"
  by (simp add: validateTransactionRequest_def)

lemma validateTransactionRequest_absent:
  "transactionRequest r = None \<Longrightarrow> validateTransactionRequest r = Inl MissingTransactionRequestError"
  by (simp add: validateTransactionRequest_def)

lemma string_of_100: "string_of_int 100 = ''100''"
  by (simp add: string_of_int_def string_of_nat.simps)

lemma String_1: "String (IdNum 1) = ''1''"
  by (simp add: string_of_int_def string_of_nat.simps)

subsection \<open>The example data, evaluated\<close>

lemma ready_Squid_eq:
  "ready_Squid = \<lparr>initialized = True, tokens = [eth, usdc, osmo, sol],
     chains = [ethereum, osmosis, solana], isInMaintenanceMode = False,
     maintenanceMessage = None, axelarscanURL = None\<rparr>"
  by (simp add: ready_Squid_def init_def example_env_def new_Squid_def)

lemma initialized_ready: "initialized ready_Squid"
  by (simp add: ready_Squid_eq)

lemma native_example: "nativeTokenConstant example_env = sentinel"
  by (simp add: example_env_def)

lemma handlers_example: "handlers example_env c = Inr ''done''"
  by (simp add: example_env_def)

lemma not_native: "''0xA0b8'' \<noteq> sentinel" "''uosmo'' \<noteq> sentinel" "''So11'' \<noteq> sentinel"
  by (simp_all add: sentinel_def)

lemma getChainData_ethereum: "getChainData ready_Squid (IdNum 1) = Inr ethereum"
  by (simp add: getChainData_def ready_Squid_eq ethereum_def)

lemma getChainData_osmosis: "getChainData ready_Squid (IdStr ''osmosis-1'') = Inr osmosis"
  by (simp add: getChainData_def ready_Squid_eq ethereum_def osmosis_def)

lemma getChainData_solana: "getChainData ready_Squid (IdStr ''solana'') = Inr solana"
  by (simp add: getChainData_def ready_Squid_eq ethereum_def osmosis_def solana_def)

lemma getChainData_nowhere:
  "getChainData ready_Squid (IdStr ''nowhere'') = Inl (ChainNotFoundError (IdStr ''nowhere''))"
  by (simp add: getChainData_def ready_Squid_eq ethereum_def osmosis_def solana_def)

lemma getTokenData_eth: "getTokenData ready_Squid sentinel (IdNum 1) = Inr eth"
  by (simp add: getTokenData_def ready_Squid_eq eth_def)

lemma getTokenData_usdc: "getTokenData ready_Squid ''0xA0b8'' (IdNum 1) = Inr usdc"
  by (simp add: getTokenData_def ready_Squid_eq eth_def usdc_def sentinel_def)

lemma getTokenData_osmo: "getTokenData ready_Squid ''uosmo'' (IdStr ''osmosis-1'') = Inr osmo"
  by (simp add: getTokenData_def ready_Squid_eq eth_def usdc_def osmo_def sentinel_def)

lemma getTokenData_sol: "getTokenData ready_Squid ''So11'' (IdStr ''solana'') = Inr sol"
  by (simp add: getTokenData_def ready_Squid_eq eth_def usdc_def osmo_def sol_def sentinel_def)

lemmas lookups = getChainData_ethereum getChainData_osmosis getChainData_solana
  getChainData_nowhere getTokenData_eth getTokenData_usdc getTokenData_osmo getTokenData_sol

lemma populate_eth:
  "populateRouteParams example_env ready_Squid (example_request (IdNum 1) sentinel) sg
     = Inr eth_params"
  by (simp add: populateRouteParams_def example_request_def lookups attempt_def Let_def
      native_example eth_params_def eth_def ethereum_def)

lemma populate_usdc:
  "populateRouteParams example_env ready_Squid (example_request (IdNum 1) ''0xA0b8'') sg
     = Inr (usdc_params sg)"
  by (cases sg) (simp_all add: populateRouteParams_def example_request_def lookups attempt_def
      Let_def native_example not_native usdc_params_def usdc_def ethereum_def)

lemma populate_osmo:
  "populateRouteParams example_env ready_Squid (example_request (IdStr ''osmosis-1'') ''uosmo'') sg
     = Inr (osmo_params sg)"
  by (cases sg) (simp_all add: populateRouteParams_def example_request_def lookups attempt_def
      Let_def native_example not_native osmo_params_def osmo_def osmosis_def)

lemma populate_sol:
  "populateRouteParams example_env ready_Squid (example_request (IdStr ''solana'') ''So11'') sg
     = Inr (sol_params sg)"
  by (cases sg) (simp_all add: populateRouteParams_def example_request_def lookups attempt_def
      Let_def native_example not_native sol_params_def sol_def solana_def)

lemma populate_nowhere:
  "populateRouteParams example_env ready_Squid (example_request (IdStr ''nowhere'') ''0x0'') sg
     = Inl (ChainNotFoundError (IdStr ''nowhere''))"
  by (simp add: populateRouteParams_def example_request_def lookups attempt_def)


section \<open>Initialisation guard\<close>

text \<open>
  Claim C1, as the code has it. Each of \<^verbatim>\<open>getRoute\<close>, \<^verbatim>\<open>executeRoute\<close>,
  \<^verbatim>\<open>isRouteApproved\<close>, \<^verbatim>\<open>approveRoute\<close> and \<^verbatim>\<open>getRawTxHex\<close> begins with
  \<^verbatim>\<open>validateInit\<close>: while the flag \<^verbatim>\<open>initialized\<close> is not set, each of them fails with
  \<open>NotInitializedError\<close> for every input, and has had no effect before that (no request
  sent, no handler called). \<^verbatim>\<open>getStatus\<close> is not among them: it has no such check.
\<close>

theorem not_initialized_guard:
  assumes "\<not> initialized s"
  shows "getRoute E s ps = ([], Inl NotInitializedError)
       \<and> executeRoute E s d = ([], Inl NotInitializedError)
       \<and> isRouteApproved E s r sender = ([], Inl NotInitializedError)
       \<and> approveRoute E s d = ([], Inl NotInitializedError)
       \<and> getRawTxHex E s rd = ([], Inl NotInitializedError)"
  by (simp add: getRoute_def executeRoute_def isRouteApproved_def approveRoute_def
      getRawTxHex_def validateInit_not_ready [OF assms] check_Inl)

text \<open>
  The guard at a freshly constructed object, on which \<^verbatim>\<open>init()\<close> has not run.
\<close>

theorem not_initialized_guard_witness:
  "\<not> initialized new_Squid
   \<and> getRoute example_env new_Squid (example_request (IdNum 1) ''0xA0b8'')
       = ([], Inl NotInitializedError)
   \<and> executeRoute example_env new_Squid (order (IdNum 1) ''0xA0b8'' (Some example_tx))
       = ([], Inl NotInitializedError)
   \<and> isRouteApproved example_env new_Squid
        (route (order (IdNum 1) ''0xA0b8'' (Some example_tx))) ''0xAlice''
       = ([], Inl NotInitializedError)
   \<and> approveRoute example_env new_Squid (order (IdNum 1) ''0xA0b8'' (Some example_tx))
       = ([], Inl NotInitializedError)
   \<and> getRawTxHex example_env new_Squid (raw_order (IdNum 1) ''0xA0b8'' (Some example_tx))
       = ([], Inl NotInitializedError)"
  using not_initialized_guard [where s = new_Squid and E = example_env
      and ps = "example_request (IdNum 1) ''0xA0b8''"
      and d = "order (IdNum 1) ''0xA0b8'' (Some example_tx)"
      and r = "route (order (IdNum 1) ''0xA0b8'' (Some example_tx))"
      and sender = "''0xAlice''"
      and rd = "raw_order (IdNum 1) ''0xA0b8'' (Some example_tx)"]
  by (simp add: new_Squid_def)

text \<open>
  Claim C1, as it is stated, fails at \<^verbatim>\<open>getStatus\<close>: on a freshly constructed object,
  whose flag is not set, \<^verbatim>\<open>getStatus\<close> sends its request and returns the service's
  answer.
\<close>

theorem getStatus_unguarded_counterexample:
  "\<not> initialized new_Squid
   \<and> getStatus example_env new_Squid
        \<lparr>transactionId = ''0xabc'', requestId = None, integratorId = None\<rparr>
       = ([HttpGet ''/v1/status''],
          Inr \<lparr>body = ''success'', echoRequestId = None, echoIntegratorId = None\<rparr>)
   \<and> snd (getStatus example_env new_Squid
        \<lparr>transactionId = ''0xabc'', requestId = None, integratorId = None\<rparr>)
       \<noteq> Inl NotInitializedError"
  by (simp add: new_Squid_def getStatus_def example_env_def)

section \<open>Routes without a transaction request\<close>

text \<open>
  Claim C2. For every route whose \<^verbatim>\<open>transactionRequest\<close> is absent, each of
  \<^verbatim>\<open>executeRoute\<close>, \<^verbatim>\<open>approveRoute\<close>, \<^verbatim>\<open>isRouteApproved\<close> and \<^verbatim>\<open>getRawTxHex\<close>
  fails with \<open>MissingTransactionRequestError\<close> on an initialised object, and on every
  object, initialised or not, the operation ends with no effect at all, so that no
  chain-family handler has been invoked.
\<close>

theorem missing_transaction_request:
  assumes "transactionRequest (route d) = None" and "transactionRequest (rawRoute rd) = None"
  shows "(initialized s \<longrightarrow>
            executeRoute E s d = ([], Inl MissingTransactionRequestError)
          \<and> approveRoute E s d = ([], Inl MissingTransactionRequestError)
          \<and> isRouteApproved E s (route d) sender = ([], Inl MissingTransactionRequestError)
          \<and> getRawTxHex E s rd = ([], Inl MissingTransactionRequestError))
       \<and> fst (executeRoute E s d) = [] \<and> fst (approveRoute E s d) = []
       \<and> fst (isRouteApproved E s (route d) sender) = [] \<and> fst (getRawTxHex E s rd) = []"
proof (cases "initialized s")
  case True
  then show ?thesis
    by (simp add: executeRoute_def isRouteApproved_def approveRoute_def getRawTxHex_def
        validateInit_ready validateTransactionRequest_absent [OF assms(1)]
        validateTransactionRequest_absent [OF assms(2)] check_Inl check_Inr)
next
  case False
  then show ?thesis
    by (simp add: executeRoute_def isRouteApproved_def approveRoute_def getRawTxHex_def
        validateInit_not_ready check_Inl)
qed

text \<open>The four operations on an initialised object, at a route that has no request.\<close>

theorem missing_transaction_request_witness:
  "initialized ready_Squid
   \<and> transactionRequest (route (order (IdNum 1) ''0xA0b8'' None)) = None
   \<and> transactionRequest (rawRoute (raw_order (IdNum 1) ''0xA0b8'' None)) = None
   \<and> executeRoute example_env ready_Squid (order (IdNum 1) ''0xA0b8'' None)
       = ([], Inl MissingTransactionRequestError)
   \<and> approveRoute example_env ready_Squid (order (IdNum 1) ''0xA0b8'' None)
       = ([], Inl MissingTransactionRequestError)
   \<and> isRouteApproved example_env ready_Squid (route (order (IdNum 1) ''0xA0b8'' None))
        ''0xAlice''
       = ([], Inl MissingTransactionRequestError)
   \<and> getRawTxHex example_env ready_Squid (raw_order (IdNum 1) ''0xA0b8'' None)
       = ([], Inl MissingTransactionRequestError)"
  using missing_transaction_request [where d = "order (IdNum 1) ''0xA0b8'' None"
      and rd = "raw_order (IdNum 1) ''0xA0b8'' None" and s = ready_Squid and E = example_env
      and sender = "''0xAlice''"]
  by (simp add: initialized_ready order_def raw_order_def)

section \<open>Dispatch on the chain family\<close>

text \<open>
  Claim C3. Once the object is initialised, the route has a transaction request and its
  parameters resolve, the handler that a dispatching operation (\<^verbatim>\<open>executeRoute\<close>,
  \<^verbatim>\<open>approveRoute\<close>, \<^verbatim>\<open>isRouteApproved\<close>) calls is a function of
  \<^verbatim>\<open>fromChain.chainType\<close> of the resolved parameters alone: the same family always selects
  the same handler. A chain type outside {EVM, COSMOS} makes each of the three fail with
  \<open>UnsupportedChainFamilyError\<close>, with no handler called. (\<^verbatim>\<open>approveRoute\<close> and
  \<^verbatim>\<open>isRouteApproved\<close> have a case for EVM only, so they call no handler for COSMOS
  either.)
\<close>

theorem dispatch_by_chain_family:
  assumes "initialized s" and "transactionRequest (route d) \<noteq> None"
    and "populateRouteParams E s (params (route d)) (signer d) = Inr p"
    and "populateRouteParams E s (params (route d)) None = Inr q"
  shows "invoked (executeRoute E s d) =
           (case chainType (popFromChain p) of
              EVM \<Rightarrow> [EvmHandler] | COSMOS \<Rightarrow> [CosmosHandler] | OtherChainType t \<Rightarrow> [])
       \<and> invoked (approveRoute E s d) =
           (case chainType (popFromChain p) of
              EVM \<Rightarrow> [EvmHandler] | COSMOS \<Rightarrow> [] | OtherChainType t \<Rightarrow> [])
       \<and> invoked (isRouteApproved E s (route d) sender) =
           (case chainType (popFromChain q) of
              EVM \<Rightarrow> [EvmHandler] | COSMOS \<Rightarrow> [] | OtherChainType t \<Rightarrow> [])
       \<and> (chainType (popFromChain p) \<notin> {EVM, COSMOS} \<longrightarrow>
            executeRoute E s d
              = ([], Inl (UnsupportedChainFamilyError (chainType (popFromChain p))))
          \<and> approveRoute E s d
              = ([], Inl (UnsupportedChainFamilyError (chainType (popFromChain p)))))
       \<and> (chainType (popFromChain q) \<notin> {EVM, COSMOS} \<longrightarrow>
            isRouteApproved E s (route d) sender
              = ([], Inl (UnsupportedChainFamilyError (chainType (popFromChain q)))))"
proof -
  from assms(2) obtain tx where tx: "transactionRequest (route d) = Some tx"
    by auto
  note pre = validateInit_ready [OF assms(1)] validateTransactionRequest_present [OF tx]
    assms(3) assms(4) check_Inr tx
  have e: "executeRoute E s d =
      (case chainType (popFromChain p) of
         EVM \<Rightarrow> ([Invoke (Evm_executeRoute d p)], handlers E (Evm_executeRoute d p))
       | COSMOS \<Rightarrow> ([Invoke (Cosmos_executeRoute d p)], handlers E (Cosmos_executeRoute d p))
       | OtherChainType t \<Rightarrow> ([], Inl (UnsupportedChainFamilyError (OtherChainType t))))"
    by (simp add: executeRoute_def pre)
  have a: "approveRoute E s d =
      (case chainType (popFromChain p) of
         EVM \<Rightarrow> ([Invoke (Evm_approveRoute d p)], handlers E (Evm_approveRoute d p))
       | t \<Rightarrow> ([], Inl (UnsupportedChainFamilyError t)))"
    by (simp add: approveRoute_def pre)
  have i: "isRouteApproved E s (route d) sender =
      (case chainType (popFromChain q) of
         EVM \<Rightarrow> ([Invoke (Evm_isRouteApproved sender q (target tx))],
                 handlers E (Evm_isRouteApproved sender q (target tx)))
       | t \<Rightarrow> ([], Inl (UnsupportedChainFamilyError t)))"
    by (cases "chainType (popFromChain q)") (simp_all add: isRouteApproved_def pre)
  show ?thesis
    unfolding e a i
    by (cases "chainType (popFromChain p)"; cases "chainType (popFromChain q)")
      (simp_all add: invoked_def)
qed

text \<open>
  The dispatch on three routes of an initialised object: from a chain of an unknown
  family, from an EVM chain and from a Cosmos chain.
\<close>

theorem dispatch_by_chain_family_witness:
  "initialized ready_Squid
   \<and> transactionRequest (route (order (IdStr ''solana'') ''So11'' (Some example_tx))) \<noteq> None
   \<and> populateRouteParams example_env ready_Squid
        (params (route (order (IdStr ''solana'') ''So11'' (Some example_tx))))
        (signer (order (IdStr ''solana'') ''So11'' (Some example_tx)))
       = Inr (sol_params (Some (EvmWallet ''alice'')))
   \<and> populateRouteParams example_env ready_Squid
        (params (route (order (IdStr ''solana'') ''So11'' (Some example_tx)))) None
       = Inr (sol_params None)
   \<and> chainType (popFromChain (sol_params (Some (EvmWallet ''alice'')))) = OtherChainType ''solana''
   \<and> chainType (popFromChain (sol_params None)) = OtherChainType ''solana''
   \<and> executeRoute example_env ready_Squid (order (IdStr ''solana'') ''So11'' (Some example_tx))
       = ([], Inl (UnsupportedChainFamilyError (OtherChainType ''solana'')))
   \<and> approveRoute example_env ready_Squid (order (IdStr ''solana'') ''So11'' (Some example_tx))
       = ([], Inl (UnsupportedChainFamilyError (OtherChainType ''solana'')))
   \<and> isRouteApproved example_env ready_Squid
        (route (order (IdStr ''solana'') ''So11'' (Some example_tx))) ''0xAlice''
       = ([], Inl (UnsupportedChainFamilyError (OtherChainType ''solana'')))
   \<and> invoked (executeRoute example_env ready_Squid
        (order (IdNum 1) ''0xA0b8'' (Some example_tx))) = [EvmHandler]
   \<and> invoked (executeRoute example_env ready_Squid
        (order (IdStr ''osmosis-1'') ''uosmo'' (Some example_tx))) = [CosmosHandler]
   \<and> invoked (approveRoute example_env ready_Squid
        (order (IdStr ''osmosis-1'') ''uosmo'' (Some example_tx))) = []"
  using dispatch_by_chain_family [where s = ready_Squid and E = example_env
      and d = "order (IdStr ''solana'') ''So11'' (Some example_tx)"
      and p = "sol_params (Some (EvmWallet ''alice''))" and q = "sol_params None"
      and sender = "''0xAlice''"]
    dispatch_by_chain_family [where s = ready_Squid and E = example_env
      and d = "order (IdNum 1) ''0xA0b8'' (Some example_tx)"
      and p = "usdc_params (Some (EvmWallet ''alice''))" and q = "usdc_params None"
      and sender = "''0xAlice''"]
    dispatch_by_chain_family [where s = ready_Squid and E = example_env
      and d = "order (IdStr ''osmosis-1'') ''uosmo'' (Some example_tx)"
      and p = "osmo_params (Some (EvmWallet ''alice''))" and q = "osmo_params None"
      and sender = "''0xAlice''"]
  by (simp add: initialized_ready order_def populate_sol populate_usdc populate_osmo
      sol_params_def usdc_params_def osmo_params_def solana_def ethereum_def osmosis_def)


section \<open>Raw transactions\<close>

text \<open>
  Claim C4, as the code has it. On an initialised object and a route that has a
  transaction request, \<^verbatim>\<open>getRawTxHex\<close> hands the caller's data, as it is, to the EVM
  handler's \<^verbatim>\<open>getRawTxHex\<close>, and its result is that handler's result. It does not
  resolve the route parameters and reads no chain family, so it raises no
  \<open>UnsupportedChainFamilyError\<close> of its own, whatever the family of the source chain.
\<close>

theorem getRawTxHex_delegates:
  assumes "initialized s" and "transactionRequest (rawRoute d) \<noteq> None"
  shows "getRawTxHex E s d = ([Invoke (Evm_getRawTxHex d)], handlers E (Evm_getRawTxHex d))"
proof -
  from assms(2) obtain tx where "transactionRequest (rawRoute d) = Some tx"
    by auto
  then show ?thesis
    by (simp add: getRawTxHex_def validateInit_ready [OF assms(1)]
        validateTransactionRequest_present check_Inr)
qed

text \<open>
  The delegation at a route whose chains the metadata store does not know: resolving its
  parameters fails, and the EVM handler is asked all the same.
\<close>

theorem getRawTxHex_delegates_witness:
  "initialized ready_Squid
   \<and> transactionRequest (rawRoute (raw_order (IdStr ''nowhere'') ''0x0'' (Some example_tx)))
       \<noteq> None
   \<and> populateRouteParams example_env ready_Squid
        (params (rawRoute (raw_order (IdStr ''nowhere'') ''0x0'' (Some example_tx)))) None
       = Inl (ChainNotFoundError (IdStr ''nowhere''))
   \<and> getRawTxHex example_env ready_Squid
        (raw_order (IdStr ''nowhere'') ''0x0'' (Some example_tx))
       = ([Invoke (Evm_getRawTxHex (raw_order (IdStr ''nowhere'') ''0x0'' (Some example_tx)))],
          Inr ''done'')"
  using getRawTxHex_delegates [where s = ready_Squid and E = example_env
      and d = "raw_order (IdStr ''nowhere'') ''0x0'' (Some example_tx)"]
  by (simp add: initialized_ready raw_order_def populate_nowhere handlers_example)

text \<open>
  Claim C4, as it is stated, fails at a route whose source chain is a Cosmos chain: its
  parameters resolve to the family COSMOS, and \<^verbatim>\<open>getRawTxHex\<close> does not fail but asks the
  EVM handler and returns what that handler returns.
\<close>

theorem getRawTxHex_cosmos_counterexample:
  "populateRouteParams example_env ready_Squid
       (params (rawRoute (raw_order (IdStr ''osmosis-1'') ''uosmo'' (Some example_tx)))) None
     = Inr (osmo_params None)
   \<and> chainType (popFromChain (osmo_params None)) = COSMOS
   \<and> getRawTxHex example_env ready_Squid
        (raw_order (IdStr ''osmosis-1'') ''uosmo'' (Some example_tx))
     = ([Invoke (Evm_getRawTxHex (raw_order (IdStr ''osmosis-1'') ''uosmo'' (Some example_tx)))],
        Inr ''done'')"
  by (simp add: raw_order_def populate_osmo osmo_params_def osmosis_def getRawTxHex_def
      validateInit_ready [OF initialized_ready] validateTransactionRequest_def check_Inr
      handlers_example)

section \<open>Gas parameters\<close>

text \<open>
  Claim C5. Without overrides, \<^verbatim>\<open>getGasData\<close> returns an object with exactly the keys
  gasLimit, maxPriorityFeePerGas and maxFeePerGas when the request's
  \<^verbatim>\<open>maxPriorityFeePerGas\<close> is set (truthy: present and not the empty string), and exactly
  the keys gasLimit and gasPrice when it is not. With an overrides object, every key of
  the overrides holds the overriding value and every other key holds what the derivation
  gave it, so the keys are those of the derivation together with those of the overrides.
\<close>

theorem getGasData_fields:
  "(truthy (maxPriorityFeePerGas tr) \<longrightarrow>
      dom (getGasData tr None) = {''gasLimit'', ''maxPriorityFeePerGas'', ''maxFeePerGas''})
   \<and> (\<not> truthy (maxPriorityFeePerGas tr) \<longrightarrow>
      dom (getGasData tr None) = {''gasLimit'', ''gasPrice''})
   \<and> (k \<in> dom os \<longrightarrow> getGasData tr (Some os) k = os k)
   \<and> (k \<notin> dom os \<longrightarrow> getGasData tr (Some os) k = getGasData tr None k)
   \<and> dom (getGasData tr (Some os)) = dom (getGasData tr None) \<union> dom os"
proof -
  have merge: "getGasData tr (Some os) = getGasData tr None ++ os"
    by (simp add: getGasData_def)
  have "truthy (maxPriorityFeePerGas tr) \<Longrightarrow>
      dom (getGasData tr None) = {''gasLimit'', ''maxPriorityFeePerGas'', ''maxFeePerGas''}"
    by (auto simp: getGasData_def)
  moreover have "\<not> truthy (maxPriorityFeePerGas tr) \<Longrightarrow>
      dom (getGasData tr None) = {''gasLimit'', ''gasPrice''}"
    by (auto simp: getGasData_def)
  moreover have "k \<in> dom os \<Longrightarrow> getGasData tr (Some os) k = os k"
    unfolding merge by (auto simp: map_add_def)
  moreover have "k \<notin> dom os \<Longrightarrow> getGasData tr (Some os) k = getGasData tr None k"
    unfolding merge by (simp add: map_add_def domIff)
  moreover have "dom (getGasData tr (Some os)) = dom (getGasData tr None) \<union> dom os"
    unfolding merge by auto
  ultimately show ?thesis
    by blast
qed

text \<open>
  A fee-market request and a legacy request, without overrides and with an override of
  the gas limit.
\<close>

theorem getGasData_fields_witness:
  "truthy (maxPriorityFeePerGas example_tx)
   \<and> dom (getGasData example_tx None) = {''gasLimit'', ''maxPriorityFeePerGas'', ''maxFeePerGas''}
   \<and> \<not> truthy (maxPriorityFeePerGas legacy_tx)
   \<and> dom (getGasData legacy_tx None) = {''gasLimit'', ''gasPrice''}
   \<and> ''gasLimit'' \<in> dom [''gasLimit'' \<mapsto> Some ''21000'']
   \<and> getGasData example_tx (Some [''gasLimit'' \<mapsto> Some ''21000'']) ''gasLimit''
       = Some (Some ''21000'')
   \<and> ''maxFeePerGas'' \<notin> dom [''gasLimit'' \<mapsto> Some ''21000'']
   \<and> getGasData example_tx (Some [''gasLimit'' \<mapsto> Some ''21000'']) ''maxFeePerGas''
       = Some (Some ''40'')"
proof -
  let ?os = "[''gasLimit'' \<mapsto> Some ''21000'']"
  note fee = getGasData_fields [where tr = example_tx and k = "''gasLimit''" and os = ?os]
  note fee' = getGasData_fields [where tr = example_tx and k = "''maxFeePerGas''" and os = ?os]
  note legacy = getGasData_fields [where tr = legacy_tx and k = "''gasLimit''" and os = ?os]
  have set: "truthy (maxPriorityFeePerGas example_tx)"
    by (simp add: example_tx_def)
  have unset: "\<not> truthy (maxPriorityFeePerGas legacy_tx)"
    by (simp add: legacy_tx_def example_tx_def)
  have inside: "''gasLimit'' \<in> dom ?os"
    by simp
  have outside: "''maxFeePerGas'' \<notin> dom ?os"
    by simp
  have derived: "getGasData example_tx None ''maxFeePerGas'' = Some (Some ''40'')"
    by (simp add: getGasData_def example_tx_def)
  note fields = fee [THEN conjunct1, THEN mp, OF set]
  note fields' = legacy [THEN conjunct2, THEN conjunct1, THEN mp, OF unset]
  have "getGasData example_tx (Some ?os) ''gasLimit'' = ?os ''gasLimit''"
    by (rule fee [THEN conjunct2, THEN conjunct2, THEN conjunct1, THEN mp, OF inside])
  then have replaced: "getGasData example_tx (Some ?os) ''gasLimit'' = Some (Some ''21000'')"
    by simp
  have "getGasData example_tx (Some ?os) ''maxFeePerGas''
      = getGasData example_tx None ''maxFeePerGas''"
    by (rule fee' [THEN conjunct2, THEN conjunct2, THEN conjunct2, THEN conjunct1, THEN mp,
          OF outside])
  then have untouched: "getGasData example_tx (Some ?os) ''maxFeePerGas'' = Some (Some ''40'')"
    by (simp only: derived)
  show ?thesis
    by (intro conjI) (rule set fields unset fields' inside replaced outside untouched)+
qed

section \<open>Balance validation\<close>

text \<open>
  Claim C6. For every required amount and every balance that the query returns, native
  or token: when the amount exceeds the balance, the validation fails with
  \<open>InsufficientBalanceError\<close>, which carries the account and the chain identifier; when
  it does not, the validation returns a result whose \<^verbatim>\<open>isApproved\<close> is true.
\<close>

theorem balance_validation:
  "(amount > getBalance C provider sender \<longrightarrow>
      validateNativeBalance C provider sender amount chain
        = Inl (InsufficientBalanceError sender (chainId chain)))
   \<and> (amount \<le> getBalance C provider sender \<longrightarrow>
      (\<exists>a. validateNativeBalance C provider sender amount chain = Inr a \<and> isApproved a))
   \<and> (amount > balanceOf C contract sender \<longrightarrow>
      validateTokenBalance C amount contract sender chain
        = Inl (InsufficientBalanceError sender (chainId chain)))
   \<and> (amount \<le> balanceOf C contract sender \<longrightarrow>
      (\<exists>a. validateTokenBalance C amount contract sender chain = Inr a \<and> isApproved a))"
  by (simp add: validateNativeBalance_def validateTokenBalance_def)

text \<open>An account that holds 100 of each, asked for 150 and for 100.\<close>

theorem balance_validation_witness:
  "150 > getBalance example_capability (RpcProvider ''https://rpc.ethereum'') ''0xAlice''
   \<and> validateNativeBalance example_capability (RpcProvider ''https://rpc.ethereum'')
        ''0xAlice'' 150 ethereum
       = Inl (InsufficientBalanceError ''0xAlice'' (IdNum 1))
   \<and> 100 \<le> getBalance example_capability (RpcProvider ''https://rpc.ethereum'') ''0xAlice''
   \<and> validateNativeBalance example_capability (RpcProvider ''https://rpc.ethereum'')
        ''0xAlice'' 100 ethereum
       = Inr \<lparr>isApproved = True, message = ''User has the expected balance 100 of ETH''\<rparr>
   \<and> 150 > balanceOf example_capability example_contract ''0xAlice''
   \<and> validateTokenBalance example_capability 150 example_contract ''0xAlice'' ethereum
       = Inl (InsufficientBalanceError ''0xAlice'' (IdNum 1))
   \<and> 100 \<le> balanceOf example_capability example_contract ''0xAlice''
   \<and> validateTokenBalance example_capability 100 example_contract ''0xAlice'' ethereum
       = Inr \<lparr>isApproved = True, message = ''User has approved Squid to use 100 of USDC''\<rparr>"
  using balance_validation [where amount = 150 and C = example_capability
      and provider = "RpcProvider ''https://rpc.ethereum''" and sender = "''0xAlice''"
      and contract = example_contract and chain = ethereum]
    balance_validation [where amount = 100 and C = example_capability
      and provider = "RpcProvider ''https://rpc.ethereum''" and sender = "''0xAlice''"
      and contract = example_contract and chain = ethereum]
  by (simp add: example_capability_def validateNativeBalance_def validateTokenBalance_def
      ethereum_def string_of_100)

section \<open>The route parameter resolver\<close>

text \<open>
  Claim C7. Whenever \<^verbatim>\<open>populateRouteParams\<close> resolves a request, the source token of
  the result is the one the metadata store holds for the request, and: if that token's
  address equals the native-token sentinel, \<^verbatim>\<open>fromTokenContract\<close> is absent; if it does
  not, \<^verbatim>\<open>fromTokenContract\<close> is a contract handle bound to the token's address, through
  the signer when one is supplied and through the read provider otherwise.
\<close>

theorem populateRouteParams_contract:
  assumes "populateRouteParams E s ps sg = Inr p"
  shows "getTokenData s (fromToken ps) (fromChain ps) = Inr (popFromToken p)
       \<and> (address (popFromToken p) = nativeTokenConstant E \<longrightarrow> fromTokenContract p = None)
       \<and> (address (popFromToken p) \<noteq> nativeTokenConstant E \<longrightarrow>
            fromTokenContract p =
              Some \<lparr>contractAddress = address (popFromToken p), contractAbi = Erc20Abi,
                    runner = (case sg of Some w \<Rightarrow> Inl w | None \<Rightarrow> Inr (fromProvider p))\<rparr>)"
proof -
  from assms obtain fc tc ft tt where
    ft: "getTokenData s (fromToken ps) (fromChain ps) = Inr ft" and
    p: "p = \<lparr>request = ps, popFromChain = fc, popToChain = tc, popFromToken = ft,
             popToToken = tt,
             fromTokenContract =
               (if address ft \<noteq> nativeTokenConstant E
                then Some \<lparr>contractAddress = address ft, contractAbi = Erc20Abi,
                       runner = (case sg of Some w \<Rightarrow> Inl w
                                 | None \<Rightarrow> Inr (RpcProvider (rpc fc)))\<rparr>
                else None),
             fromProvider = RpcProvider (rpc fc),
             fromIsNative = (address ft = nativeTokenConstant E)\<rparr>"
    unfolding populateRouteParams_def attempt_Inr_iff Let_def by auto
  show ?thesis
    by (cases sg) (simp_all add: ft p)
qed

text \<open>
  The native token of the EVM chain, and its contract token with a signer and without
  one.
\<close>

theorem populateRouteParams_contract_witness:
  "populateRouteParams example_env ready_Squid (example_request (IdNum 1) sentinel)
       (Some (EvmWallet ''alice'')) = Inr eth_params
   \<and> address (popFromToken eth_params) = nativeTokenConstant example_env
   \<and> fromTokenContract eth_params = None
   \<and> populateRouteParams example_env ready_Squid (example_request (IdNum 1) ''0xA0b8'')
       (Some (EvmWallet ''alice'')) = Inr (usdc_params (Some (EvmWallet ''alice'')))
   \<and> address (popFromToken (usdc_params (Some (EvmWallet ''alice''))))
       \<noteq> nativeTokenConstant example_env
   \<and> fromTokenContract (usdc_params (Some (EvmWallet ''alice'')))
       = Some \<lparr>contractAddress = ''0xA0b8'', contractAbi = Erc20Abi,
               runner = Inl (EvmWallet ''alice'')\<rparr>
   \<and> populateRouteParams example_env ready_Squid (example_request (IdNum 1) ''0xA0b8'') None
       = Inr (usdc_params None)
   \<and> fromTokenContract (usdc_params None)
       = Some \<lparr>contractAddress = ''0xA0b8'', contractAbi = Erc20Abi,
               runner = Inr (RpcProvider ''https://rpc.ethereum'')\<rparr>"
proof -
  note native = populateRouteParams_contract [OF populate_eth [of "Some (EvmWallet ''alice'')"]]
  note signed = populateRouteParams_contract [OF populate_usdc [of "Some (EvmWallet ''alice'')"]]
  note unsigned = populateRouteParams_contract [OF populate_usdc [of None]]
  have is_native: "address (popFromToken eth_params) = nativeTokenConstant example_env"
    by (simp add: eth_params_def eth_def native_example)
  have not_native_signed:
    "address (popFromToken (usdc_params (Some (EvmWallet ''alice''))))
       \<noteq> nativeTokenConstant example_env"
    by (simp add: usdc_params_def usdc_def native_example not_native)
  have not_native_unsigned:
    "address (popFromToken (usdc_params None)) \<noteq> nativeTokenConstant example_env"
    by (simp add: usdc_params_def usdc_def native_example not_native)
  have absent: "fromTokenContract eth_params = None"
    by (rule native [THEN conjunct2, THEN conjunct1, THEN mp, OF is_native])
  have "fromTokenContract (usdc_params (Some (EvmWallet ''alice''))) =
      Some \<lparr>contractAddress = address (popFromToken (usdc_params (Some (EvmWallet ''alice'')))),
            contractAbi = Erc20Abi,
            runner = (case Some (EvmWallet ''alice'') of Some w \<Rightarrow> Inl w
                      | None \<Rightarrow> Inr (fromProvider (usdc_params (Some (EvmWallet ''alice'')))))\<rparr>"
    by (rule signed [THEN conjunct2, THEN conjunct2, THEN mp, OF not_native_signed])
  then have bound_signed: "fromTokenContract (usdc_params (Some (EvmWallet ''alice'')))
      = Some \<lparr>contractAddress = ''0xA0b8'', contractAbi = Erc20Abi,
              runner = Inl (EvmWallet ''alice'')\<rparr>"
    by (simp add: usdc_params_def usdc_def)
  have "fromTokenContract (usdc_params None) =
      Some \<lparr>contractAddress = address (popFromToken (usdc_params None)),
            contractAbi = Erc20Abi,
            runner = (case None of Some w \<Rightarrow> Inl w
                      | None \<Rightarrow> Inr (fromProvider (usdc_params None)))\<rparr>"
    by (rule unsigned [THEN conjunct2, THEN conjunct2, THEN mp, OF not_native_unsigned])
  then have bound_unsigned: "fromTokenContract (usdc_params None)
      = Some \<lparr>contractAddress = ''0xA0b8'', contractAbi = Erc20Abi,
              runner = Inr (RpcProvider ''https://rpc.ethereum'')\<rparr>"
    by (simp add: usdc_params_def usdc_def)
  show ?thesis
    by (intro conjI) (rule populate_eth populate_usdc is_native absent not_native_signed
        bound_signed bound_unsigned)+
qed

section \<open>The route plan\<close>

lemma collect_map_Inr:
  "collect (map f xs) = Inr ys \<Longrightarrow> list_all2 (\<lambda>x y. f x = Inr y) xs ys"
proof (induction xs arbitrary: ys)
  case Nil
  then show ?case by simp
next
  case (Cons x xs)
  then show ?case
    by (auto simp: attempt_def split: sum.splits)
qed

lemma collect_map_total:
  "(\<exists>ys. collect (map f xs) = Inr ys) \<longleftrightarrow> (\<forall>x\<in>set xs. \<exists>y. f x = Inr y)"
  by (induction xs) (auto simp: attempt_def split: sum.splits)

lemma parseCall_retained:
  "type c \<in> {BRIDGE, SWAP, CUSTOM} \<Longrightarrow> parseCall rm c = Inr out \<Longrightarrow> \<exists>call. out = Some call"
  by (auto simp: parseCall_def attempt_def split: sum.splits)

lemma parseCall_Inr_iff:
  "(\<exists>y. parseCall rm c = Inr y) \<longleftrightarrow> (type c = SWAP \<longrightarrow> dex c \<noteq> None)"
  by (cases "type c") (auto simp: parseCall_def parseSwap_def attempt_def split: option.splits)

text \<open>
  Claim C8. Whenever \<^verbatim>\<open>parseRoute\<close> returns a plan for a raw call list, the calls of
  the plan are, one for one and in order, the parsed forms of exactly those raw calls
  whose tag is one of BRIDGE, SWAP and CUSTOM: a call of one of these tags is retained, a
  call of any other tag is dropped without a trace. The parser returns a plan if and
  only if every raw call tagged SWAP has a \<^verbatim>\<open>dex\<close> object (it throws otherwise).
\<close>

theorem parseRoute_retains:
  "(parseRoute rm d = Inr plan \<longrightarrow>
      list_all2 (\<lambda>raw out. \<exists>call. out = Some call \<and> parseCall rm raw = Inr (Some call))
        (filter (\<lambda>c. type c \<in> {BRIDGE, SWAP, CUSTOM}) d) plan)
   \<and> ((\<exists>p. parseRoute rm d = Inr p) \<longleftrightarrow> (\<forall>c\<in>set d. type c = SWAP \<longrightarrow> dex c \<noteq> None))"
proof (intro conjI impI)
  assume ok: "parseRoute rm d = Inr plan"
  let ?kept = "filter (\<lambda>c. type c \<in> {BRIDGE, SWAP, CUSTOM}) d"
  have eq: "filter (\<lambda>call. type call \<in> set [BRIDGE, CUSTOM, SWAP]) d = ?kept"
    by (rule filter_cong) auto
  from ok have "list_all2 (\<lambda>x y. parseCall rm x = Inr y) ?kept plan"
    unfolding parseRoute_def eq by (rule collect_map_Inr)
  moreover have "\<forall>x\<in>set ?kept. type x \<in> {BRIDGE, SWAP, CUSTOM}"
    by simp
  ultimately show "list_all2
      (\<lambda>raw out. \<exists>call. out = Some call \<and> parseCall rm raw = Inr (Some call)) ?kept plan"
  proof (induction rule: list_all2_induct)
    case Nil
    then show ?case by simp
  next
    case (Cons x xs y ys)
    from Cons.prems have "type x \<in> {BRIDGE, SWAP, CUSTOM}"
      by simp
    with Cons.hyps(1) obtain call where "y = Some call"
      using parseCall_retained by blast
    with Cons show ?case
      by simp
  qed
next
  show "(\<exists>p. parseRoute rm d = Inr p) \<longleftrightarrow> (\<forall>c\<in>set d. type c = SWAP \<longrightarrow> dex c \<noteq> None)"
    unfolding parseRoute_def collect_map_total parseCall_Inr_iff by auto
qed

text \<open>
  Four raw calls, tagged BRIDGE, TRANSFER, SWAP and CUSTOM: the plan has the three
  parsed calls, and nothing for the call tagged TRANSFER.
\<close>

theorem parseRoute_retains_witness:
  "parseRoute (\<lambda>c. c) raw_calls = Inr example_plan
   \<and> map type raw_calls = [BRIDGE, OtherCallType ''TRANSFER'', SWAP, CUSTOM]
   \<and> dex (raw_calls ! 2) \<noteq> None
   \<and> list_all2 (\<lambda>raw out. \<exists>call. out = Some call \<and> parseCall (\<lambda>c. c) raw = Inr (Some call))
        (filter (\<lambda>c. type c \<in> {BRIDGE, SWAP, CUSTOM}) raw_calls) example_plan
   \<and> length example_plan = 3"
proof -
  have plan: "parseRoute (\<lambda>c. c) raw_calls = Inr example_plan"
    by (simp add: parseRoute_def raw_calls_def raw_call_def parseCall_def parseSwap_def
        attempt_def example_plan_def)
  note kept = parseRoute_retains [where rm = "\<lambda>c. c" and d = raw_calls and plan = example_plan,
      THEN conjunct1, THEN mp, OF plan]
  have tags: "map type raw_calls = [BRIDGE, OtherCallType ''TRANSFER'', SWAP, CUSTOM]"
    by (simp add: raw_calls_def raw_call_def)
  have swap: "dex (raw_calls ! 2) \<noteq> None"
    by (simp add: raw_calls_def raw_call_def)
  have len: "length example_plan = 3"
    by (simp add: example_plan_def)
  show ?thesis
    by (intro conjI) (rule plan tags swap kept len)+
qed

section \<open>Errors of the routing service\<close>

text \<open>
  Claim C9. On an initialised object, for every response of the routing service whose
  status is not 200, \<^verbatim>\<open>getRoute\<close> fails, after its one request, with an error whose
  message is that of \<^verbatim>\<open>new Error(data.error)\<close>: exactly the service's error message
  whenever the body carries one.
\<close>

theorem getRoute_upstream_error:
  assumes "initialized s" and "status (route_endpoint E ps) \<noteq> 200"
  shows "getRoute E s ps =
           ([HttpPost ''v2/route'' ps],
            Inl (UpstreamServiceError
                  (new_Error_message (errorField (payload (route_endpoint E ps))))))
       \<and> (errorField (payload (route_endpoint E ps)) = Some m \<longrightarrow>
            getRoute E s ps = ([HttpPost ''v2/route'' ps], Inl (UpstreamServiceError m)))"
  using assms(2) by (simp add: getRoute_def validateInit_ready [OF assms(1)] check_Inr)

text \<open>
  The scenario of the claim: the service answers with status 400 and the body
  \<^verbatim>\<open>{error: "slippage too high"}\<close>.
\<close>

theorem getRoute_upstream_error_witness:
  "initialized ready_Squid
   \<and> status (route_endpoint example_env (example_request (IdNum 1) ''0xA0b8'')) = 400
   \<and> errorField (payload (route_endpoint example_env (example_request (IdNum 1) ''0xA0b8'')))
       = Some ''slippage too high''
   \<and> getRoute example_env ready_Squid (example_request (IdNum 1) ''0xA0b8'')
       = ([HttpPost ''v2/route'' (example_request (IdNum 1) ''0xA0b8'')],
          Inl (UpstreamServiceError ''slippage too high''))"
proof -
  have st: "status (route_endpoint example_env (example_request (IdNum 1) ''0xA0b8'')) = 400"
    by (simp add: example_env_def)
  then have ne: "status (route_endpoint example_env (example_request (IdNum 1) ''0xA0b8'')) \<noteq> 200"
    by simp
  have body: "errorField (payload (route_endpoint example_env
      (example_request (IdNum 1) ''0xA0b8''))) = Some ''slippage too high''"
    by (simp add: example_env_def)
  note fails = getRoute_upstream_error [OF initialized_ready ne, THEN conjunct2, THEN mp, OF body]
  show ?thesis
    by (intro conjI) (rule initialized_ready st body fails)+
qed

section \<open>Partition of the chains by family\<close>

lemma foldl_partitionStep:
  "foldl (partitionStep n) (a, b) cs =
     (a @ map chainId (filter (\<lambda>c. String (chainId c) \<in> set n \<and> chainType c \<noteq> COSMOS) cs),
      b @ map chainId (filter (\<lambda>c. String (chainId c) \<in> set n \<and> chainType c = COSMOS) cs))"
  by (induction cs arbitrary: a b) (simp_all add: partitionStep_def)

text \<open>
  Claim C10. The partition that \<^verbatim>\<open>getAllBalances\<close> computes: the EVM group holds, in
  the order of the metadata store, the identifiers of the known chains that are requested
  (their identifier, as a string, is among the requested identifiers, as strings) and
  whose chain type is not COSMOS, whatever else that type is; the Cosmos group holds those
  of the requested chains whose type is COSMOS. A chain that is not requested is in
  neither group, and there is no branch for an unsupported family.
\<close>

theorem partition_by_family:
  "partitionChainIds s ids =
     (map chainId (filter (\<lambda>c. String (chainId c) \<in> set (map String ids)
                              \<and> chainType c \<noteq> COSMOS) (chains s)),
      map chainId (filter (\<lambda>c. String (chainId c) \<in> set (map String ids)
                              \<and> chainType c = COSMOS) (chains s)))"
  unfolding partitionChainIds_def by (simp only: foldl_partitionStep append_Nil)

text \<open>
  The partition on the example store: the chain of the unknown family joins the EVM
  group, the number 1 matches the requested string, and chain 5 is not known.
\<close>

lemma partition_example:
  "partitionChainIds ready_Squid [IdStr ''1'', IdStr ''solana'', IdStr ''osmosis-1'', IdNum 5]
     = ([IdNum 1, IdStr ''solana''], [IdStr ''osmosis-1''])"
  by (simp add: partitionChainIds_def partitionStep_def ready_Squid_eq ethereum_def osmosis_def
      solana_def String_1 string_of_int_def string_of_nat.simps)


end
